theory Spec2Isabelle
  imports Main "HOL-Library.Word" "HOL-Library.Signed_Division"
begin

section \<open>Data model (pkg/openai/types.go)\<close>

text \<open>
  \<open>EmbedRequest.Input\<close> has the Go type \<open>interface{}\<close> and is filled by
  \<open>json.Unmarshal\<close>, which stores exactly one of: \<open>nil\<close> (field absent or JSON
  null), \<open>bool\<close>, \<open>float64\<close>, \<open>string\<close>, \<open>[]interface{}\<close> and
  \<open>map[string]interface{}\<close>. The datatype \<open>json\<close> has one constructor per dynamic
  type. The converters never compute with a floating-point number, they only copy it, so a
  \<open>float64\<close> (\<open>float32\<close>) is represented by its 64 (32) bits.
\<close>

type_synonym float64 = "64 word"
type_synonym float32 = "32 word"

datatype json =
    JNull
  | JBool bool
  | JNumber float64
  | JString string
  | JArray "json list"
  | JObject "(string \<times> json) list"

text \<open>What \<open>fmt\<close> prints for the verb \<open>%T\<close> applied to such a value.\<close>

fun typeName :: "json \<Rightarrow> string" where
  "typeName JNull = ''<nil>''"
| "typeName (JBool b) = ''bool''"
| "typeName (JNumber x) = ''float64''"
| "typeName (JString s) = ''string''"
| "typeName (JArray xs) = ''[]interface {}''"
| "typeName (JObject kvs) = ''map[string]interface {}''"

record EmbedRequest =
  Input :: json
  Model :: string
  EncodingFormat :: string
  Dimensions :: int
  User :: string

record EmbedResponseData =
  Object :: string
  Embedding :: "float32 list"
  Index :: int

record Usage =
  PromptTokens :: int
  TotalTokens :: int

record EmbedResponse =
  Object :: string
  Data :: "EmbedResponseData list"
  Model :: string
  Usage :: Usage

record ModelResponseData =
  Object :: string
  ID :: string
  Created :: nat
  OwnedBy :: string

record ModelResponse =
  Object :: string
  Data :: "ModelResponseData list"

section \<open>The upstream SDK, as far as the proxy uses it\<close>

text \<open>
  A client is built from one API key (\<open>genai.NewClient\<close> with \<open>option.WithAPIKey\<close>);
  \<open>client.EmbeddingModel(name)\<close> pairs a client with a model name; \<open>NewBatch\<close>
  starts an empty batch for that model and \<open>AddContent\<close> appends one item made of the
  given parts. \<open>ContentEmbedding\<close> carries the vector of one item and
  \<open>BatchEmbedContentsResponse\<close> the vectors of a batch, in submission order. The SDK
  hands out non-nil pointers whenever it reports no error, so both are values here.
\<close>

datatype Client = Client string

record EmbeddingModel =
  emClient :: Client
  emName :: string

datatype Part = Text string

record EmbeddingBatch =
  tm :: EmbeddingModel
  Requests :: "Part list list"

definition NewBatch :: "EmbeddingModel \<Rightarrow> EmbeddingBatch" where
  "NewBatch m = \<lparr>tm = m, Requests = []\<rparr>"

definition AddContent :: "EmbeddingBatch \<Rightarrow> Part list \<Rightarrow> EmbeddingBatch" where
  "AddContent b parts = b\<lparr>Requests := Requests b @ [parts]\<rparr>"

record ContentEmbedding =
  Values :: "float32 list"

record BatchEmbedContentsResponse =
  Embeddings :: "ContentEmbedding list"

record ModelInfo =
  Name :: string
  SupportedGenerationMethods :: "string list"

section \<open>Format converter (pkg/openai/gemini.go)\<close>

text \<open>
  An error of the converter is the message it was created with
  (\<open>errors.New\<close>, \<open>errors.Errorf\<close>). The two kinds of the specification are
  told apart by their message.
\<close>

type_synonym error = string

definition UnsupportedFormat :: error where
  "UnsupportedFormat = ''unsupported encoding format''"

definition UnsupportedInputType :: "string \<Rightarrow> error" where
  "UnsupportedInputType ty = ''unsupported input type: '' @ ty"

text \<open>
  The loop over the elements of a sequence input. In
  \<open>if t, ok := text.(string); ok { ... } else { return nil, errors.Errorf("...%T", t) }\<close>
  the variable \<open>t\<close> of the failing branch is the zero value of \<open>string\<close>, not the
  element \<open>text\<close>: the message is formatted from the empty string.
\<close>

fun addTexts :: "json list \<Rightarrow> EmbeddingBatch \<Rightarrow> error + EmbeddingBatch" where
  "addTexts [] b = Inr b"
| "addTexts (text # rest) b =
     (case text of
        JString t \<Rightarrow> addTexts rest (AddContent b [Text t])
      | _ \<Rightarrow> Inl (UnsupportedInputType (typeName (JString []))))"

definition ConvertOpenAIRequestToGemini ::
    "EmbedRequest \<Rightarrow> EmbeddingModel \<Rightarrow> error + EmbeddingBatch" where
  "ConvertOpenAIRequestToGemini openAIReq model =
     (if EncodingFormat openAIReq \<noteq> [] \<and> EncodingFormat openAIReq \<noteq> ''float''
      then Inl UnsupportedFormat
      else
        (case Input openAIReq of
           JString v \<Rightarrow> Inr (AddContent (NewBatch model) [Text v])
         | JArray v \<Rightarrow> addTexts v (NewBatch model)
         | v \<Rightarrow> Inl (UnsupportedInputType (typeName v))))"

text \<open>
  The loop \<open>for i, geminiResp := range geminiBatchResp.Embeddings\<close>, appending to
  \<open>openAIResp.Data\<close>; \<open>i\<close> is the position reached and \<open>acc\<close> the data so far.
\<close>

fun appendData ::
    "nat \<Rightarrow> ContentEmbedding list \<Rightarrow> EmbedResponseData list \<Rightarrow> EmbedResponseData list" where
  "appendData i [] acc = acc"
| "appendData i (geminiResp # rest) acc =
     appendData (Suc i) rest
       (acc @ [\<lparr>EmbedResponseData.Object = ''embedding'',
                Embedding = Values geminiResp,
                Index = int i\<rparr>])"

definition ConvertGeminiResponseToOpenAI ::
    "BatchEmbedContentsResponse \<Rightarrow> string \<Rightarrow> EmbedResponse" where
  "ConvertGeminiResponseToOpenAI geminiBatchResp model =
     \<lparr>EmbedResponse.Object = ''list'',
      Data = appendData 0 (Embeddings geminiBatchResp) [],
      Model = model,
      Usage = \<lparr>PromptTokens = 0, TotalTokens = 0\<rparr>\<rparr>"

section \<open>Request handlers (main.go)\<close>

text \<open>
  A handler either answers through \<open>http.Error\<close> with a status code, or hands a
  response value to the JSON encoder (status 200), or panics. Logging and the
  request counters are left out; the batch-size metric is kept because computing its
  argument can panic.
\<close>

datatype panic = DivideByZero | IndexOutOfRange | InterfaceConversion

datatype 'a outcome = HttpError nat | Encoded 'a | Panicked panic

definition StatusBadRequest :: nat where "StatusBadRequest = 400"
definition StatusMethodNotAllowed :: nat where "StatusMethodNotAllowed = 405"
definition StatusInternalServerError :: nat where "StatusInternalServerError = 500"

text \<open>
  The request body as the handler meets it: \<open>io.ReadAll\<close> fails, or
  \<open>json.Unmarshal\<close> fails, or the body decodes to an \<open>EmbedRequest\<close>.
\<close>

datatype body = Unreadable | Malformed | Decoded EmbedRequest

record Request =
  Method :: string
  Body :: body

subsection \<open>Client selection\<close>

text \<open>
  \<open>currentClient\<close> is an \<open>atomic.Int32\<close>: \<open>Add(1)\<close> wraps around at 32 bits and
  returns the new value. \<open>useIndex := currentClient.Add(1) % int32(len(geminiClients))\<close>
  is a signed remainder that truncates towards zero (\<open>smod\<close>), and it panics when the
  divisor is zero. \<open>geminiClients[useIndex]\<close> panics unless
  \<open>0 \<le> useIndex < len(geminiClients)\<close>.
\<close>

definition useIndexOf :: "'c list \<Rightarrow> 32 word \<Rightarrow> panic + int" where
  "useIndexOf geminiClients added =
     (let n = (word_of_nat (length geminiClients) :: 32 word)
      in if n = 0 then Inl DivideByZero else Inr (sint added smod sint n))"

definition indexClient :: "'c list \<Rightarrow> int \<Rightarrow> panic + 'c" where
  "indexClient geminiClients i =
     (if 0 \<le> i \<and> i < int (length geminiClients)
      then Inr (geminiClients ! nat i) else Inl IndexOutOfRange)"

text \<open>
  One selection: the index and the client chosen (or the panic), and the counter after
  the increment. The increment has happened also when the selection panics.
\<close>

definition selectClient :: "'c list \<Rightarrow> 32 word \<Rightarrow> (panic + int \<times> 'c) \<times> 32 word" where
  "selectClient geminiClients currentClient =
     (let added = currentClient + 1 in
      (case useIndexOf geminiClients added of
         Inl p \<Rightarrow> Inl p
       | Inr useIndex \<Rightarrow>
           (case indexClient geminiClients useIndex of
              Inl p \<Rightarrow> Inl p
            | Inr client \<Rightarrow> Inr (useIndex, client)),
       added))"

text \<open>\<open>k\<close> selections one after the other, each starting from the counter the last one left.\<close>

fun selections :: "'c list \<Rightarrow> 32 word \<Rightarrow> nat \<Rightarrow> (panic + int \<times> 'c) list \<times> 32 word" where
  "selections geminiClients currentClient 0 = ([], currentClient)"
| "selections geminiClients currentClient (Suc k) =
     (case selectClient geminiClients currentClient of
        (r, c) \<Rightarrow>
          (case selections geminiClients c k of
             (rs, c') \<Rightarrow> (r # rs, c')))"

subsection \<open>Embeddings handler\<close>

text \<open>\<open>len(openAIReq.Input.([]interface{}))\<close>: the type assertion panics on any other dynamic type.\<close>

definition batchSize :: "json \<Rightarrow> panic + nat" where
  "batchSize input = (case input of JArray v \<Rightarrow> Inr (length v) | _ \<Rightarrow> Inl InterfaceConversion)"

text \<open>
  The upstream call \<open>embeddingModel.BatchEmbedContents\<close> is a parameter. The result is
  the outcome and the value of \<open>currentClient\<close> afterwards.
\<close>

definition embeddingsHandler ::
    "(EmbeddingModel \<Rightarrow> EmbeddingBatch \<Rightarrow> error + BatchEmbedContentsResponse) \<Rightarrow>
     Client list \<Rightarrow> 32 word \<Rightarrow> Request \<Rightarrow> EmbedResponse outcome \<times> 32 word" where
  "embeddingsHandler BatchEmbedContents geminiClients currentClient r =
     (if Method r \<noteq> ''POST'' then (HttpError StatusMethodNotAllowed, currentClient)
      else
        (case Body r of
           Unreadable \<Rightarrow> (HttpError StatusBadRequest, currentClient)
         | Malformed \<Rightarrow> (HttpError StatusBadRequest, currentClient)
         | Decoded openAIReq \<Rightarrow>
             (case selectClient geminiClients currentClient of
                (Inl p, c) \<Rightarrow> (Panicked p, c)
              | (Inr (useIndex, client), c) \<Rightarrow>
                  (let embeddingModel =
                         \<lparr>emClient = client, emName = EmbedRequest.Model openAIReq\<rparr>
                   in
                     (case ConvertOpenAIRequestToGemini openAIReq embeddingModel of
                        Inl err \<Rightarrow> (HttpError StatusBadRequest, c)
                      | Inr geminiBatchReq \<Rightarrow>
                          (case BatchEmbedContents embeddingModel geminiBatchReq of
                             Inl err \<Rightarrow> (HttpError StatusInternalServerError, c)
                           | Inr geminiBatchResp \<Rightarrow>
                               (let openAIResp =
                                      ConvertGeminiResponseToOpenAI geminiBatchResp
                                        (EmbedRequest.Model openAIReq)
                                in
                                  (case batchSize (Input openAIReq) of
                                     Inl p \<Rightarrow> (Panicked p, c)
                                   | Inr observed \<Rightarrow> (Encoded openAIResp, c)))))))))"

subsection \<open>Models handler\<close>

text \<open>
  \<open>geminiClients[0].ListModels\<close> gives an iterator. It is modelled by the finite list of
  what \<open>iter.Next()\<close> returns before \<open>iterator.Done\<close>: a model, or an error other
  than \<open>Done\<close>. The loop stops at the end of the list or at the first error.
\<close>

fun drainModels ::
    "(error + ModelInfo) list \<Rightarrow> ModelResponseData list \<Rightarrow> error + ModelResponseData list" where
  "drainModels [] models = Inr models"
| "drainModels (Inl err # rest) models = Inl err"
| "drainModels (Inr m # rest) models =
     (if ''embedContent'' \<notin> set (SupportedGenerationMethods m)
      then drainModels rest models
      else drainModels rest
             (models @ [\<lparr>ModelResponseData.Object = ''model'',
                         ID = Name m,
                         Created = 0,
                         OwnedBy = ''google''\<rparr>]))"

definition modelsHandler ::
    "(Client \<Rightarrow> (error + ModelInfo) list) \<Rightarrow> Client list \<Rightarrow> string \<Rightarrow> ModelResponse outcome" where
  "modelsHandler ListModels geminiClients method =
     (if method \<noteq> ''GET'' then HttpError StatusMethodNotAllowed
      else
        (case indexClient geminiClients 0 of
           Inl p \<Rightarrow> Panicked p
         | Inr client \<Rightarrow>
             (case drainModels (ListModels client) [] of
                Inl err \<Rightarrow> HttpError StatusInternalServerError
              | Inr models \<Rightarrow>
                  Encoded \<lparr>ModelResponse.Object = ''list'', Data = models\<rparr>)))"

section \<open>Facts about the converter\<close>

lemma addTexts_strings:
  "addTexts (map JString ss) b = Inr (b\<lparr>Requests := Requests b @ map (\<lambda>s. [Text s]) ss\<rparr>)"
  by (induction ss arbitrary: b) (simp_all add: AddContent_def)

lemma addTexts_not_format: "addTexts v b \<noteq> Inl UnsupportedFormat"
  by (induction v arbitrary: b)
     (simp_all add: UnsupportedFormat_def UnsupportedInputType_def split: json.splits)

text \<open>
  Whatever the element that stops the loop is, the error names the type \<open>string\<close>.
\<close>

lemma addTexts_non_string:
  "\<exists>x \<in> set v. \<forall>s. x \<noteq> JString s \<Longrightarrow> addTexts v b = Inl (UnsupportedInputType ''string'')"
  by (induction v arbitrary: b) (auto split: json.splits)

lemma appendData_eq:
  "appendData i es acc =
     acc @ map (\<lambda>k. \<lparr>EmbedResponseData.Object = ''embedding'',
                       Embedding = Values (es ! k), Index = int (i + k)\<rparr>) [0..<length es]"
proof (induction es arbitrary: i acc)
  case Nil
  show ?case by simp
next
  case (Cons e es)
  have "[0..<length (e # es)] = 0 # map Suc [0..<length es]"
    by (simp add: upt_conv_Cons map_Suc_upt del: upt_Suc)
  then show ?case
    by (simp add: Cons.IH comp_def del: upt_Suc)
qed

lemma map_nth_values: "map (\<lambda>k. Values (es ! k)) [0..<length es] = map Values es"
  by (rule nth_equalityI) simp_all

lemma Convert_format_ok:
  "EncodingFormat req = [] \<or> EncodingFormat req = ''float'' \<Longrightarrow>
   ConvertOpenAIRequestToGemini req model =
     (case Input req of
        JString v \<Rightarrow> Inr (AddContent (NewBatch model) [Text v])
      | JArray v \<Rightarrow> addTexts v (NewBatch model)
      | v \<Rightarrow> Inl (UnsupportedInputType (typeName v)))"
  by (auto simp: ConvertOpenAIRequestToGemini_def)

lemma Convert_format_bad:
  "EncodingFormat req \<noteq> [] \<Longrightarrow> EncodingFormat req \<noteq> ''float'' \<Longrightarrow>
   ConvertOpenAIRequestToGemini req model = Inl UnsupportedFormat"
  by (simp add: ConvertOpenAIRequestToGemini_def)

section \<open>Facts about client selection\<close>

lemma sint_of_nat_small:
  assumes "n < 2 ^ 31"
  shows "sint (word_of_nat n :: 32 word) = int n"
proof -
  have "sint (word_of_nat n :: 32 word) = signed_take_bit 31 (int n)"
    by (simp add: signed_of_nat)
  also have "\<dots> = int n"
    using assms by (intro signed_take_bit_int_eq_self) auto
  finally show ?thesis .
qed

lemma sint_succ:
  assumes "0 \<le> sint (c :: 32 word)" and "sint c + 1 < 2 ^ 31"
  shows "sint (c + 1) = sint c + 1"
proof -
  have "sint (c + 1) = signed_take_bit 31 (sint c + 1)"
    by (simp add: sint_word_ariths)
  also have "\<dots> = sint c + 1"
    using assms by (intro signed_take_bit_int_eq_self) auto
  finally show ?thesis .
qed

text \<open>
  While the incremented counter is not negative, a selection from a non-empty pool of
  fewer than \<open>2 ^ 31\<close> clients does not panic and picks the client at the counter
  modulo the pool size.
\<close>

lemma selectClient_in_range:
  assumes "geminiClients \<noteq> []" and "length geminiClients < 2 ^ 31"
      and "0 \<le> sint (currentClient + 1)"
  shows "selectClient geminiClients currentClient =
           (Inr (sint (currentClient + 1) mod int (length geminiClients),
                 geminiClients ! nat (sint (currentClient + 1) mod int (length geminiClients))),
            currentClient + 1)"
proof -
  let ?n = "length geminiClients"
  let ?w = "word_of_nat ?n :: 32 word"
  have n_pos: "0 < ?n" using assms(1) by simp
  have s: "sint ?w = int ?n"
    using assms(2) by (rule sint_of_nat_small)
  have nz: "?w \<noteq> 0"
    using s n_pos by auto
  have m: "sint (currentClient + 1) smod int ?n = sint (currentClient + 1) mod int ?n"
    using assms(3) by (simp add: smod_mod_positive)
  have lo: "0 \<le> sint (currentClient + 1) mod int ?n"
    using n_pos by simp
  have hi: "sint (currentClient + 1) mod int ?n < int ?n"
    using n_pos by simp
  show ?thesis
    using nz lo hi
    by (simp add: selectClient_def useIndexOf_def indexClient_def Let_def s m)
qed

text \<open>
  Round robin below the overflow: from a counter \<open>start \<ge> 0\<close>, \<open>k\<close> selections
  that keep the counter below \<open>2 ^ 31\<close> return the indices
  \<open>(start + 1) mod N, \<dots>, (start + k) mod N\<close> with their clients, and leave the counter
  at \<open>start + k\<close>.
\<close>

lemma selections_in_range:
  assumes "geminiClients \<noteq> []" and "length geminiClients < 2 ^ 31"
      and "0 \<le> sint start" and "sint start + int k < 2 ^ 31"
  shows "selections geminiClients start k =
           (map (\<lambda>i. Inr ((sint start + int i) mod int (length geminiClients),
                          geminiClients ! nat ((sint start + int i) mod int (length geminiClients))))
                [1..<Suc k],
            start + word_of_nat k)"
  using assms(3,4)
proof (induction k arbitrary: start)
  case 0
  show ?case by simp
next
  case (Suc k)
  have s1: "sint (start + 1) = sint start + 1"
    using Suc.prems by (intro sint_succ) auto
  have sel: "selectClient geminiClients start =
           (Inr ((sint start + 1) mod int (length geminiClients),
                 geminiClients ! nat ((sint start + 1) mod int (length geminiClients))),
            start + 1)"
    using selectClient_in_range [OF assms(1,2), of start] Suc.prems s1 by simp
  have ih: "selections geminiClients (start + 1) k =
           (map (\<lambda>i. Inr ((sint (start + 1) + int i) mod int (length geminiClients),
                          geminiClients ! nat ((sint (start + 1) + int i) mod int (length geminiClients))))
                [1..<Suc k],
            start + 1 + word_of_nat k)"
    using Suc.prems s1 by (intro Suc.IH) auto
  have shift: "[1..<Suc (Suc k)] = 1 # map Suc [1..<Suc k]"
    by (simp add: upt_conv_Cons map_Suc_upt del: upt_Suc)
  have step: "selections geminiClients start (Suc k) =
           (Inr ((sint start + 1) mod int (length geminiClients),
                 geminiClients ! nat ((sint start + 1) mod int (length geminiClients)))
            # map (\<lambda>i. Inr ((sint (start + 1) + int i) mod int (length geminiClients),
                          geminiClients ! nat ((sint (start + 1) + int i) mod int (length geminiClients))))
                [1..<Suc k],
            start + 1 + word_of_nat k)"
    by (simp only: selections.simps sel ih prod.case)
  have idx: "sint (start + 1) + int i = sint start + int (Suc i)" for i
    by (simp add: s1)
  have cnt: "start + 1 + word_of_nat k = start + word_of_nat (Suc k)"
    by simp
  show ?case
    unfolding step shift idx cnt
    by (simp add: comp_def del: upt_Suc)
qed

lemma selectClient_two_clients:
  "selectClient [Client ''k0'', Client ''k1''] 0 = (Inr (1, Client ''k1''), 1)"
  by (simp add: selectClient_def useIndexOf_def indexClient_def Let_def signed_modulo_int_def)

section \<open>Facts about the handlers\<close>

lemma handler_convert_fails:
  assumes "Method r = ''POST''" and "Body r = Decoded req"
      and "fst (selectClient geminiClients currentClient) = Inr (useIndex, client)"
      and "ConvertOpenAIRequestToGemini req
             \<lparr>emClient = client, emName = EmbedRequest.Model req\<rparr> = Inl err"
  shows "embeddingsHandler upstream geminiClients currentClient r =
           (HttpError StatusBadRequest, currentClient + 1)"
proof -
  have "selectClient geminiClients currentClient = (Inr (useIndex, client), currentClient + 1)"
    using assms(3)
    by (cases "selectClient geminiClients currentClient") (auto simp: selectClient_def Let_def)
  then show ?thesis
    using assms(1,2,4) by (simp add: embeddingsHandler_def)
qed

text \<open>
  Every request with a single-string input that gets as far as a successful upstream
  call ends in the panic of the batch-size metric.
\<close>

lemma embeddingsHandler_string_input_panics:
  assumes "Method r = ''POST''" and "Body r = Decoded req"
      and "Input req = JString s"
      and "EncodingFormat req = [] \<or> EncodingFormat req = ''float''"
      and "fst (selectClient geminiClients currentClient) = Inr (useIndex, client)"
      and "upstream \<lparr>emClient = client, emName = EmbedRequest.Model req\<rparr>
             (AddContent (NewBatch \<lparr>emClient = client, emName = EmbedRequest.Model req\<rparr>) [Text s])
           = Inr geminiBatchResp"
  shows "embeddingsHandler upstream geminiClients currentClient r =
           (Panicked InterfaceConversion, currentClient + 1)"
proof -
  have sel: "selectClient geminiClients currentClient = (Inr (useIndex, client), currentClient + 1)"
    using assms(5)
    by (cases "selectClient geminiClients currentClient") (auto simp: selectClient_def Let_def)
  have conv: "ConvertOpenAIRequestToGemini req \<lparr>emClient = client, emName = EmbedRequest.Model req\<rparr>
                = Inr (AddContent (NewBatch \<lparr>emClient = client, emName = EmbedRequest.Model req\<rparr>) [Text s])"
    using assms(3,4) by (simp add: Convert_format_ok)
  show ?thesis
    using assms(1,2,3,6) by (simp add: embeddingsHandler_def sel conv batchSize_def)
qed

lemma drainModels_catalog:
  "drainModels (map Inr catalog) models =
     Inr (models @
          map (\<lambda>m. \<lparr>ModelResponseData.Object = ''model'', ID = Name m,
                      Created = 0, OwnedBy = ''google''\<rparr>)
              (filter (\<lambda>m. ''embedContent'' \<in> set (SupportedGenerationMethods m)) catalog))"
  by (induction catalog arbitrary: models) simp_all

text \<open>
  An input that is neither a string nor a sequence is always rejected by the converter;
  the error is the one about the input type when the encoding format is accepted, and
  the handler answers 400 once it has reached the conversion.
\<close>

lemma other_shape_rejected:
  assumes "\<forall>s. Input req \<noteq> JString s" and "\<forall>v. Input req \<noteq> JArray v"
  shows "(\<forall>m. \<exists>err. ConvertOpenAIRequestToGemini req m = Inl err)
       \<and> (EncodingFormat req = [] \<or> EncodingFormat req = ''float'' \<longrightarrow>
            ConvertOpenAIRequestToGemini req model
              = Inl (UnsupportedInputType (typeName (Input req))))
       \<and> (Method r = ''POST'' \<and> Body r = Decoded req
            \<and> fst (selectClient geminiClients currentClient) = Inr (useIndex, client)
          \<longrightarrow> fst (embeddingsHandler upstream geminiClients currentClient r)
                = HttpError StatusBadRequest)"
proof -
  have ok: "ConvertOpenAIRequestToGemini req m = Inl (UnsupportedInputType (typeName (Input req)))"
    if "EncodingFormat req = [] \<or> EncodingFormat req = ''float''" for m
    unfolding Convert_format_ok [OF that]
    using assms by (cases "Input req") simp_all
  have fails: "\<exists>err. ConvertOpenAIRequestToGemini req m = Inl err" for m
  proof (cases "EncodingFormat req = [] \<or> EncodingFormat req = ''float''")
    case True
    then show ?thesis by (simp add: ok)
  next
    case False
    then show ?thesis by (simp add: Convert_format_bad)
  qed
  have h: "fst (embeddingsHandler upstream geminiClients currentClient r) = HttpError StatusBadRequest"
    if p: "Method r = ''POST'' \<and> Body r = Decoded req
            \<and> fst (selectClient geminiClients currentClient) = Inr (useIndex, client)"
  proof -
    obtain err where "ConvertOpenAIRequestToGemini req
        \<lparr>emClient = client, emName = EmbedRequest.Model req\<rparr> = Inl err"
      using fails by blast
    with p show ?thesis by (simp add: handler_convert_fails)
  qed
  show ?thesis
    using ok fails h by blast
qed

section \<open>The claims\<close>

text \<open>
  C1. Round robin is claimed for every starting value of the counter: the selections
  after \<open>start\<close> are to return the indices \<open>(start + 1) mod N, (start + 2) mod N, \<dots>\<close>.
  With three clients and the counter at \<open>2147483647\<close>, the largest \<open>int32\<close>, the
  increment wraps to \<open>- 2147483648\<close>, the truncating remainder by 3 is \<open>- 2\<close> where
  the claim expects index 2, and indexing the pool with it panics. (Below the overflow
  the claimed sequence is what the code returns: \<open>selections_in_range\<close>.)
\<close>

theorem selectClient_overflow_panics:
  "selectClient [Client ''k0'', Client ''k1'', Client ''k2''] 2147483647
     = (Inl IndexOutOfRange, 2147483648)
   \<and> useIndexOf [Client ''k0'', Client ''k1'', Client ''k2''] (2147483647 + 1) = Inr (- 2)
   \<and> (2147483647 + 1) mod int (length [Client ''k0'', Client ''k1'', Client ''k2'']) = 2"
  by (simp add: selectClient_def useIndexOf_def indexClient_def Let_def signed_modulo_int_def)

text \<open>
  C2. For a request that passes the encoding-format check and whose input is a sequence
  of \<open>N\<close> strings (\<open>N \<ge> 0\<close>), \<open>ConvertOpenAIRequestToGemini\<close> succeeds with a batch of
  exactly those \<open>N\<close> strings as text items, in input order; and for an upstream result
  of \<open>N\<close> vectors \<open>ConvertGeminiResponseToOpenAI\<close> returns \<open>N\<close> embeddings whose
  indices are \<open>0, \<dots>, N - 1\<close> and whose vectors are the upstream vectors, in order.
\<close>

theorem convert_string_sequence:
  assumes "EncodingFormat req = [] \<or> EncodingFormat req = ''float''"
      and "Input req = JArray (map JString ss)"
      and "length (Embeddings geminiBatchResp) = length ss"
  shows "ConvertOpenAIRequestToGemini req model =
           Inr \<lparr>tm = model, Requests = map (\<lambda>s. [Text s]) ss\<rparr>
         \<and> length (EmbedResponse.Data (ConvertGeminiResponseToOpenAI geminiBatchResp name)) = length ss
         \<and> map Index (EmbedResponse.Data (ConvertGeminiResponseToOpenAI geminiBatchResp name))
             = map int [0..<length ss]
         \<and> map Embedding (EmbedResponse.Data (ConvertGeminiResponseToOpenAI geminiBatchResp name))
             = map Values (Embeddings geminiBatchResp)"
proof -
  have a: "ConvertOpenAIRequestToGemini req model =
           Inr \<lparr>tm = model, Requests = map (\<lambda>s. [Text s]) ss\<rparr>"
    using assms(1,2) by (simp add: Convert_format_ok addTexts_strings NewBatch_def)
  have d: "EmbedResponse.Data (ConvertGeminiResponseToOpenAI geminiBatchResp name) =
           map (\<lambda>k. \<lparr>EmbedResponseData.Object = ''embedding'',
                       Embedding = Values (Embeddings geminiBatchResp ! k), Index = int k\<rparr>)
               [0..<length (Embeddings geminiBatchResp)]"
    by (simp add: ConvertGeminiResponseToOpenAI_def appendData_eq)
  have l: "length (EmbedResponse.Data (ConvertGeminiResponseToOpenAI geminiBatchResp name)) = length ss"
    by (simp add: d assms(3))
  have i: "map Index (EmbedResponse.Data (ConvertGeminiResponseToOpenAI geminiBatchResp name))
             = map int [0..<length ss]"
    by (simp add: d comp_def assms(3))
  have e: "map Embedding (EmbedResponse.Data (ConvertGeminiResponseToOpenAI geminiBatchResp name))
             = map Values (Embeddings geminiBatchResp)"
    by (simp add: d comp_def map_nth_values)
  show ?thesis
    using a l i e by blast
qed

theorem convert_string_sequence_witness:
  "ConvertOpenAIRequestToGemini
     \<lparr>Input = JArray [JString ''a'', JString ''b'', JString ''c''], Model = ''m'',
      EncodingFormat = [], Dimensions = 0, User = []\<rparr>
     \<lparr>emClient = Client ''k0'', emName = ''m''\<rparr>
   = Inr \<lparr>tm = \<lparr>emClient = Client ''k0'', emName = ''m''\<rparr>,
          Requests = [[Text ''a''], [Text ''b''], [Text ''c'']]\<rparr>
   \<and> map Index (EmbedResponse.Data (ConvertGeminiResponseToOpenAI
         \<lparr>Embeddings = [\<lparr>Values = [1]\<rparr>, \<lparr>Values = [2]\<rparr>, \<lparr>Values = [3]\<rparr>]\<rparr> ''m''))
       = [0, 1, 2]
   \<and> map Embedding (EmbedResponse.Data (ConvertGeminiResponseToOpenAI
         \<lparr>Embeddings = [\<lparr>Values = [1]\<rparr>, \<lparr>Values = [2]\<rparr>, \<lparr>Values = [3]\<rparr>]\<rparr> ''m''))
       = [[1], [2], [3]]"
  using convert_string_sequence
    [of "\<lparr>Input = JArray [JString ''a'', JString ''b'', JString ''c''], Model = ''m'',
          EncodingFormat = [], Dimensions = 0, User = []\<rparr>"
        "[''a'', ''b'', ''c'']"
        "\<lparr>Embeddings = [\<lparr>Values = [1]\<rparr>, \<lparr>Values = [2]\<rparr>, \<lparr>Values = [3]\<rparr>]\<rparr>"
        "\<lparr>emClient = Client ''k0'', emName = ''m''\<rparr>" "''m''"]
  by (simp add: upt_rec)

text \<open>
  C3. \<open>ConvertGeminiResponseToOpenAI\<close> has no failing branch: for every upstream result
  and model name it returns the response with object \<open>list\<close>, the given model name,
  one data entry per upstream vector, the entry at position \<open>i\<close> having object
  \<open>embedding\<close>, index \<open>i\<close> and the values of the \<open>i\<close>-th vector unchanged, and a
  usage of zero prompt tokens and zero total tokens.
\<close>

theorem ConvertGeminiResponseToOpenAI_shape:
  "ConvertGeminiResponseToOpenAI geminiBatchResp model =
     \<lparr>EmbedResponse.Object = ''list'',
      Data = map (\<lambda>i. \<lparr>EmbedResponseData.Object = ''embedding'',
                        Embedding = Values (Embeddings geminiBatchResp ! i),
                        Index = int i\<rparr>) [0..<length (Embeddings geminiBatchResp)],
      Model = model,
      Usage = \<lparr>PromptTokens = 0, TotalTokens = 0\<rparr>\<rparr>
   \<and> length (EmbedResponse.Data (ConvertGeminiResponseToOpenAI geminiBatchResp model))
       = length (Embeddings geminiBatchResp)"
  by (simp add: ConvertGeminiResponseToOpenAI_def appendData_eq)

text \<open>
  C4. The claim is that on the success path the type assertion of the batch-size metric
  cannot fail, also for a single-string input. For the request
  \<open>{"input": "hello", "model": "m"}\<close> the converter accepts the input and produces a
  batch of one item, the upstream call succeeds, and the handler then panics in
  \<open>openAIReq.Input.([]interface{})\<close> before anything is written.
\<close>

theorem embeddingsHandler_single_string_panics:
  "ConvertOpenAIRequestToGemini
     \<lparr>Input = JString ''hello'', Model = ''m'', EncodingFormat = [], Dimensions = 0, User = []\<rparr>
     \<lparr>emClient = Client ''k1'', emName = ''m''\<rparr>
   = Inr \<lparr>tm = \<lparr>emClient = Client ''k1'', emName = ''m''\<rparr>, Requests = [[Text ''hello'']]\<rparr>
   \<and> embeddingsHandler (\<lambda>m b. Inr \<lparr>Embeddings = [\<lparr>Values = [7, 9]\<rparr>]\<rparr>)
       [Client ''k0'', Client ''k1''] 0
       \<lparr>Method = ''POST'', Body = Decoded \<lparr>Input = JString ''hello'', Model = ''m'',
            EncodingFormat = [], Dimensions = 0, User = []\<rparr>\<rparr>
     = (Panicked InterfaceConversion, 1)"
  by (simp add: embeddingsHandler_def selectClient_two_clients ConvertOpenAIRequestToGemini_def
      NewBatch_def AddContent_def batchSize_def)

text \<open>
  C5. The claim is that a sequence with a non-string element is rejected with an error
  naming the type of the first such element. For the input \<open>["a", 1.0]\<close> the converter
  does fail with the input-type error, but the message names \<open>string\<close>, while the type
  of the offending element is \<open>float64\<close>.
\<close>

theorem convert_non_string_element_message:
  "ConvertOpenAIRequestToGemini
     \<lparr>Input = JArray [JString ''a'', JNumber 4607182418800017408], Model = ''m'',
      EncodingFormat = [], Dimensions = 0, User = []\<rparr> model
   = Inl ''unsupported input type: string''
   \<and> typeName (JNumber 4607182418800017408) = ''float64''"
  by (simp add: ConvertOpenAIRequestToGemini_def UnsupportedInputType_def)

text \<open>
  C6. \<open>ConvertOpenAIRequestToGemini\<close> fails with the unsupported-format error exactly
  when \<open>encoding_format\<close> is non-empty and different from \<open>float\<close>; so an absent
  format and \<open>float\<close> pass the check. For a POST request whose body decodes to a
  request with any other format, the handler, having selected a client, answers 400.
\<close>

theorem convert_unsupported_format:
  "(ConvertOpenAIRequestToGemini req model = Inl UnsupportedFormat)
     = (EncodingFormat req \<noteq> [] \<and> EncodingFormat req \<noteq> ''float'')
   \<and> (Method r = ''POST'' \<and> Body r = Decoded req
        \<and> fst (selectClient geminiClients currentClient) = Inr (useIndex, client)
        \<and> EncodingFormat req \<noteq> [] \<and> EncodingFormat req \<noteq> ''float''
      \<longrightarrow> fst (embeddingsHandler upstream geminiClients currentClient r)
            = HttpError StatusBadRequest)"
proof (intro conjI impI)
  show "(ConvertOpenAIRequestToGemini req model = Inl UnsupportedFormat)
     = (EncodingFormat req \<noteq> [] \<and> EncodingFormat req \<noteq> ''float'')"
  proof (cases "EncodingFormat req \<noteq> [] \<and> EncodingFormat req \<noteq> ''float''")
    case True
    then show ?thesis by (simp add: Convert_format_bad)
  next
    case False
    then have ok: "EncodingFormat req = [] \<or> EncodingFormat req = ''float''" by auto
    have "ConvertOpenAIRequestToGemini req model \<noteq> Inl UnsupportedFormat"
      unfolding Convert_format_ok [OF ok]
      by (cases "Input req")
         (simp_all add: addTexts_not_format,
          simp_all add: UnsupportedFormat_def UnsupportedInputType_def)
    with False show ?thesis by blast
  qed
next
  assume h: "Method r = ''POST'' \<and> Body r = Decoded req
        \<and> fst (selectClient geminiClients currentClient) = Inr (useIndex, client)
        \<and> EncodingFormat req \<noteq> [] \<and> EncodingFormat req \<noteq> ''float''"
  then have "ConvertOpenAIRequestToGemini req \<lparr>emClient = client, emName = EmbedRequest.Model req\<rparr>
               = Inl UnsupportedFormat"
    by (simp add: Convert_format_bad)
  with h show "fst (embeddingsHandler upstream geminiClients currentClient r)
            = HttpError StatusBadRequest"
    by (simp add: handler_convert_fails)
qed

theorem convert_unsupported_format_witness:
  "ConvertOpenAIRequestToGemini
     \<lparr>Input = JString ''hello'', Model = ''m'',
      EncodingFormat = ''base64'', Dimensions = 0, User = []\<rparr>
     \<lparr>emClient = Client ''k1'', emName = ''m''\<rparr> = Inl UnsupportedFormat
   \<and> fst (embeddingsHandler (\<lambda>m b. Inr \<lparr>Embeddings = []\<rparr>) [Client ''k0'', Client ''k1''] 0
        \<lparr>Method = ''POST'', Body = Decoded \<lparr>Input = JString ''hello'', Model = ''m'',
             EncodingFormat = ''base64'', Dimensions = 0, User = []\<rparr>\<rparr>)
       = HttpError StatusBadRequest"
  using convert_unsupported_format
    [of "\<lparr>Input = JString ''hello'', Model = ''m'',
          EncodingFormat = ''base64'', Dimensions = 0, User = []\<rparr>"
        "\<lparr>emClient = Client ''k1'', emName = ''m''\<rparr>"
        "\<lparr>Method = ''POST'', Body = Decoded \<lparr>Input = JString ''hello'', Model = ''m'',
             EncodingFormat = ''base64'', Dimensions = 0, User = []\<rparr>\<rparr>"
        "[Client ''k0'', Client ''k1'']" 0 1 "Client ''k1''" "\<lambda>m b. Inr \<lparr>Embeddings = []\<rparr>"]
  by (simp add: selectClient_two_clients)

text \<open>
  C7. For an input that is neither a single string nor a sequence (nil, a boolean, a
  number, an object), \<open>ConvertOpenAIRequestToGemini\<close> fails; when the request passes
  the encoding-format check, which comes first, the error is the unsupported-input-type
  error naming the dynamic type of the input; and for a POST request whose body decodes
  to such a request the handler, having selected a client, answers 400 Bad Request.
\<close>

theorem convert_other_shape:
  assumes "\<forall>s. Input req \<noteq> JString s" and "\<forall>v. Input req \<noteq> JArray v"
  shows "(\<exists>err. ConvertOpenAIRequestToGemini req model = Inl err)
       \<and> (EncodingFormat req = [] \<or> EncodingFormat req = ''float'' \<longrightarrow>
            ConvertOpenAIRequestToGemini req model
              = Inl (UnsupportedInputType (typeName (Input req))))
       \<and> (Method r = ''POST'' \<and> Body r = Decoded req
            \<and> fst (selectClient geminiClients currentClient) = Inr (useIndex, client)
          \<longrightarrow> fst (embeddingsHandler upstream geminiClients currentClient r)
                = HttpError StatusBadRequest)"
  using other_shape_rejected [OF assms, of model r geminiClients currentClient useIndex client upstream]
  by blast

theorem convert_other_shape_witness:
  "ConvertOpenAIRequestToGemini
     \<lparr>Input = JObject [(''text'', JString ''hello'')], Model = ''m'',
      EncodingFormat = [], Dimensions = 0, User = []\<rparr>
     \<lparr>emClient = Client ''k1'', emName = ''m''\<rparr>
     = Inl ''unsupported input type: map[string]interface {}''
   \<and> fst (embeddingsHandler (\<lambda>m b. Inr \<lparr>Embeddings = []\<rparr>) [Client ''k0'', Client ''k1''] 0
        \<lparr>Method = ''POST'', Body = Decoded \<lparr>Input = JObject [(''text'', JString ''hello'')],
             Model = ''m'', EncodingFormat = [], Dimensions = 0, User = []\<rparr>\<rparr>)
       = HttpError StatusBadRequest"
  using convert_other_shape
    [of "\<lparr>Input = JObject [(''text'', JString ''hello'')], Model = ''m'',
          EncodingFormat = [], Dimensions = 0, User = []\<rparr>"
        "\<lparr>emClient = Client ''k1'', emName = ''m''\<rparr>"
        "\<lparr>Method = ''POST'', Body = Decoded \<lparr>Input = JObject [(''text'', JString ''hello'')],
             Model = ''m'', EncodingFormat = [], Dimensions = 0, User = []\<rparr>\<rparr>"
        "[Client ''k0'', Client ''k1'']" 0 1 "Client ''k1''" "\<lambda>m b. Inr \<lparr>Embeddings = []\<rparr>"]
  by (simp add: selectClient_two_clients UnsupportedInputType_def)

text \<open>
  C8. For a GET request and an upstream catalog that is enumerated without error, the
  models handler encodes a \<open>ModelResponse\<close> with object \<open>list\<close> whose data are, in
  catalog order, exactly the models that list \<open>embedContent\<close> among their supported
  generation methods, each as a \<open>ModelResponseData\<close> with object \<open>model\<close>, the
  upstream name as id, created 0 and owner \<open>google\<close>.
\<close>

theorem modelsHandler_catalog:
  assumes "method = ''GET''" and "geminiClients \<noteq> []"
      and "ListModels (geminiClients ! 0) = map Inr catalog"
  shows "modelsHandler ListModels geminiClients method =
           Encoded \<lparr>ModelResponse.Object = ''list'',
                    Data = map (\<lambda>m. \<lparr>ModelResponseData.Object = ''model'', ID = Name m,
                                      Created = 0, OwnedBy = ''google''\<rparr>)
                               (filter (\<lambda>m. ''embedContent'' \<in> set (SupportedGenerationMethods m))
                                       catalog)\<rparr>"
  using assms by (simp add: modelsHandler_def indexClient_def drainModels_catalog)

theorem modelsHandler_catalog_witness:
  "modelsHandler
     (\<lambda>c. [Inr \<lparr>Name = ''models/embedding-001'', SupportedGenerationMethods = [''embedContent'']\<rparr>,
           Inr \<lparr>Name = ''models/gemini-pro'',
                SupportedGenerationMethods = [''generateContent'', ''countTokens'']\<rparr>,
           Inr \<lparr>Name = ''models/text-embedding-004'',
                SupportedGenerationMethods = [''countTokens'', ''embedContent'']\<rparr>])
     [Client ''k0'', Client ''k1''] ''GET''
   = Encoded \<lparr>ModelResponse.Object = ''list'',
              Data = [\<lparr>ModelResponseData.Object = ''model'', ID = ''models/embedding-001'',
                       Created = 0, OwnedBy = ''google''\<rparr>,
                      \<lparr>ModelResponseData.Object = ''model'', ID = ''models/text-embedding-004'',
                       Created = 0, OwnedBy = ''google''\<rparr>]\<rparr>"
  using modelsHandler_catalog
    [of "''GET''" "[Client ''k0'', Client ''k1'']"
        "\<lambda>c. [Inr \<lparr>Name = ''models/embedding-001'', SupportedGenerationMethods = [''embedContent'']\<rparr>,
              Inr \<lparr>Name = ''models/gemini-pro'',
                   SupportedGenerationMethods = [''generateContent'', ''countTokens'']\<rparr>,
              Inr \<lparr>Name = ''models/text-embedding-004'',
                   SupportedGenerationMethods = [''countTokens'', ''embedContent'']\<rparr>]"
        "[\<lparr>Name = ''models/embedding-001'', SupportedGenerationMethods = [''embedContent'']\<rparr>,
          \<lparr>Name = ''models/gemini-pro'',
           SupportedGenerationMethods = [''generateContent'', ''countTokens'']\<rparr>,
          \<lparr>Name = ''models/text-embedding-004'',
           SupportedGenerationMethods = [''countTokens'', ''embedContent'']\<rparr>]"]
  by simp

text \<open>
  C9. For a request that passes the encoding-format check and whose input is a single
  string, \<open>ConvertOpenAIRequestToGemini\<close> succeeds with a batch of exactly one text
  item, that string; and for an upstream result of one vector
  \<open>ConvertGeminiResponseToOpenAI\<close> returns exactly one embedding, at index 0.
\<close>

theorem convert_single_string:
  assumes "EncodingFormat req = [] \<or> EncodingFormat req = ''float''"
      and "Input req = JString s"
  shows "ConvertOpenAIRequestToGemini req model = Inr \<lparr>tm = model, Requests = [[Text s]]\<rparr>
         \<and> EmbedResponse.Data (ConvertGeminiResponseToOpenAI \<lparr>Embeddings = [v]\<rparr> name)
             = [\<lparr>EmbedResponseData.Object = ''embedding'', Embedding = Values v, Index = 0\<rparr>]"
  using assms
  by (simp add: Convert_format_ok NewBatch_def AddContent_def ConvertGeminiResponseToOpenAI_def)

theorem convert_single_string_witness:
  "ConvertOpenAIRequestToGemini
     \<lparr>Input = JString ''hello'', Model = ''m'',
      EncodingFormat = ''float'', Dimensions = 0, User = []\<rparr>
     \<lparr>emClient = Client ''k0'', emName = ''m''\<rparr>
   = Inr \<lparr>tm = \<lparr>emClient = Client ''k0'', emName = ''m''\<rparr>, Requests = [[Text ''hello'']]\<rparr>
   \<and> EmbedResponse.Data (ConvertGeminiResponseToOpenAI \<lparr>Embeddings = [\<lparr>Values = [7, 9]\<rparr>]\<rparr> ''m'')
       = [\<lparr>EmbedResponseData.Object = ''embedding'', Embedding = [7, 9], Index = 0\<rparr>]"
  using convert_single_string
    [of "\<lparr>Input = JString ''hello'', Model = ''m'',
          EncodingFormat = ''float'', Dimensions = 0, User = []\<rparr>" "''hello''"
        "\<lparr>emClient = Client ''k0'', emName = ''m''\<rparr>" "\<lparr>Values = [7, 9]\<rparr>" "''m''"]
  by simp

text \<open>
  C10. When the decoded input is nil (the field is absent or JSON null),
  \<open>ConvertOpenAIRequestToGemini\<close> never returns a batch, in particular not an empty
  one; when the request passes the encoding-format check the error is the
  unsupported-input-type error, naming \<open><nil>\<close>; and for a POST request whose body
  decodes to such a request, as \<open>{"model": "m"}\<close> does, the handler, having selected a
  client, answers 400 and encodes no response.
\<close>

theorem convert_nil_input:
  assumes "Input req = JNull"
  shows "(\<forall>b. ConvertOpenAIRequestToGemini req model \<noteq> Inr b)
       \<and> (EncodingFormat req = [] \<or> EncodingFormat req = ''float'' \<longrightarrow>
            ConvertOpenAIRequestToGemini req model = Inl (UnsupportedInputType ''<nil>''))
       \<and> (Method r = ''POST'' \<and> Body r = Decoded req
            \<and> fst (selectClient geminiClients currentClient) = Inr (useIndex, client)
          \<longrightarrow> fst (embeddingsHandler upstream geminiClients currentClient r)
                = HttpError StatusBadRequest)"
proof -
  have a: "\<forall>s. Input req \<noteq> JString s" and b: "\<forall>v. Input req \<noteq> JArray v"
    using assms by simp_all
  have t: "typeName (Input req) = ''<nil>''"
    using assms by simp
  have "\<exists>err. ConvertOpenAIRequestToGemini req model = Inl err"
    using other_shape_rejected [OF a b] by blast
  then have n: "\<forall>b. ConvertOpenAIRequestToGemini req model \<noteq> Inr b"
    by auto
  show ?thesis
    using n other_shape_rejected
      [OF a b, of model r geminiClients currentClient useIndex client upstream]
    unfolding t by blast
qed

theorem convert_nil_input_witness:
  "ConvertOpenAIRequestToGemini
     \<lparr>Input = JNull, Model = ''m'', EncodingFormat = [], Dimensions = 0, User = []\<rparr>
     \<lparr>emClient = Client ''k1'', emName = ''m''\<rparr>
     = Inl ''unsupported input type: <nil>''
   \<and> fst (embeddingsHandler (\<lambda>m b. Inr \<lparr>Embeddings = []\<rparr>) [Client ''k0'', Client ''k1''] 0
        \<lparr>Method = ''POST'', Body = Decoded \<lparr>Input = JNull,
             Model = ''m'', EncodingFormat = [], Dimensions = 0, User = []\<rparr>\<rparr>)
       = HttpError StatusBadRequest"
  using convert_nil_input
    [of "\<lparr>Input = JNull, Model = ''m'', EncodingFormat = [], Dimensions = 0, User = []\<rparr>"
        "\<lparr>emClient = Client ''k1'', emName = ''m''\<rparr>"
        "\<lparr>Method = ''POST'', Body = Decoded \<lparr>Input = JNull,
             Model = ''m'', EncodingFormat = [], Dimensions = 0, User = []\<rparr>\<rparr>"
        "[Client ''k0'', Client ''k1'']" 0 1 "Client ''k1''" "\<lambda>m b. Inr \<lparr>Embeddings = []\<rparr>"]
  by (simp add: selectClient_two_clients UnsupportedInputType_def)

end
